theory Spec2Isabelle
  imports Main
begin

section \<open>The collection facade of \<^verbatim>\<open>pylib/anki/collection.py\<close>\<close>

text \<open>
  The development embeds the transactional core of class \<^verbatim>\<open>Collection\<close>: the scheduler
  version registry (\<^verbatim>\<open>schedVer\<close>, \<^verbatim>\<open>_loadScheduler\<close>, \<^verbatim>\<open>changeSchedulerVer\<close>), the
  transaction guard (\<^verbatim>\<open>save\<close>, \<^verbatim>\<open>rollback\<close>, \<^verbatim>\<open>modSchema\<close>) and the single-slot undo record
  (\<^verbatim>\<open>markReview\<close>, \<^verbatim>\<open>undo\<close>, \<^verbatim>\<open>_undoReview\<close>, \<^verbatim>\<open>_markOp\<close>, \<^verbatim>\<open>_undoOp\<close>).

  Mutation of \<^verbatim>\<open>self\<close> is explicit state passing on a record. A method that can raise returns
  a pair: the outcome (\<open>Inl\<close> the exception, \<open>Inr\<close> the returned value) and the collection as it
  is at that moment, so that what a raising call has already changed stays visible.
  A name with a leading underscore carries a prime instead (\<^verbatim>\<open>_undo\<close> is \<open>undo'\<close>).
\<close>

subsection \<open>Exceptions\<close>

text \<open>
  \<open>UnsupportedSchedulerVersion\<close> is \<^verbatim>\<open>Exception("Unsupported scheduler version")\<close> and
  \<open>AbortSchemaMod\<close> is \<^verbatim>\<open>AnkiError("abortSchemaMod")\<close>: the two exceptions the class raises
  with a \<^verbatim>\<open>raise\<close> statement. \<open>TypeError\<close> and \<open>IndexError\<close> are raised by the interpreter
  itself, at a subscript of \<^verbatim>\<open>None\<close> and at an index out of range.
\<close>

datatype error = UnsupportedSchedulerVersion | AbortSchemaMod | TypeError | IndexError

subsection \<open>Data\<close>

text \<open>
  The columns of a card row that the undo code reads or writes: \<^verbatim>\<open>id\<close>, \<^verbatim>\<open>nid\<close>, \<^verbatim>\<open>queue\<close>,
  \<^verbatim>\<open>type\<close>, \<^verbatim>\<open>mod\<close>, \<^verbatim>\<open>usn\<close>. A value of this record is also what \<^verbatim>\<open>copy.copy(card)\<close>
  keeps: the row as it was when the copy was taken.
\<close>

record card =
  card_id :: int
  nid :: int
  queue :: int
  ctype :: int
  cmod :: int
  cusn :: int

text \<open>
  The undo record \<^verbatim>\<open>_undo\<close>: \<^verbatim>\<open>None\<close>, or \<^verbatim>\<open>[1, name, [first, second, ...], wasLeech]\<close>
  (\<open>Review\<close>), or \<^verbatim>\<open>[2, name]\<close> (\<open>Checkpoint\<close>).
\<close>

datatype undo_record = Review string "card list" bool | Checkpoint string

text \<open>
  The persistent rows the code touches: the single row of table \<^verbatim>\<open>col\<close> (\<^verbatim>\<open>mod\<close>, \<^verbatim>\<open>scm\<close>,
  \<^verbatim>\<open>ls\<close>, \<^verbatim>\<open>usn\<close>), the cards by id, the tags of each note by note id, the review log as
  pairs (id, cid), and the configuration key \<^verbatim>\<open>schedVer\<close> (\<open>None\<close> when the key is absent).
\<close>

record tables =
  col_mod :: int
  col_scm :: int
  col_ls :: int
  col_usn :: int
  cards :: "int \<rightharpoonup> card"
  note_tags :: "int \<Rightarrow> string list"
  revlog :: "(int \<times> int) list"
  config_schedVer :: "int option"

datatype db_call = Begin | Commit | Rollback

text \<open>
  Modelled from the spec: the storage proxy \<^verbatim>\<open>DBProxy\<close> (\<^verbatim>\<open>anki/dbproxy.py\<close> is not part of
  the sources at hand). It offers \<^verbatim>\<open>begin()\<close>, \<^verbatim>\<open>commit()\<close>, \<^verbatim>\<open>rollback()\<close>, statement
  execution, a local mutation flag (\<^verbatim>\<open>mod\<close>) and the modified timestamp recorded when the
  current transaction began (\<^verbatim>\<open>last_begin_at\<close>). \<open>cur\<close> holds the rows as the connection sees
  them and \<open>committed\<close> the rows a rollback returns to; \<open>open_trx\<close> counts the transactions
  that are open and \<open>calls\<close> logs the transaction calls in order (a commit-count probe).
  The storage itself is taken to work: its own failures are not part of the model.
\<close>

record dbproxy =
  db_mod :: bool
  last_begin_at :: int
  cur :: tables
  committed :: tables
  open_trx :: nat
  calls :: "db_call list"

datatype sched_impl = V1Scheduler | V2Scheduler

record scheduler =
  impl :: sched_impl
  reps :: int

datatype direction = ToV1 | ToV2

text \<open>
  The collection object. \<open>stats\<close> holds the review counts per bucket that
  \<^verbatim>\<open>sched._updateStats\<close> maintains; \<open>migrations\<close> logs the calls of the migration routines
  (a probe: it is no field of the source).
\<close>

record collection =
  db :: dbproxy
  server :: bool
  sched :: scheduler
  undo' :: "undo_record option"
  lastSave' :: int
  stats :: "string \<Rightarrow> int"
  migrations :: "direction list"

record deck_conf =
  dyn :: bool
  resched :: bool

text \<open>
  What the methods take from outside the class: the clock (\<^verbatim>\<open>intTime(1000)\<close>, \<^verbatim>\<open>intTime()\<close>,
  \<^verbatim>\<open>time.time()\<close>, read once for the call and taken as integers), the answer of the hook
  \<^verbatim>\<open>hooks.schema_will_change(proceed=True)\<close>, the translation of \<^verbatim>\<open>TR.SCHEDULING_REVIEW\<close>,
  the deck configuration \<^verbatim>\<open>sched._cardConf(card)\<close>, and the two migration routines of the
  version 2 scheduler, \<^verbatim>\<open>moveToV1\<close> and \<^verbatim>\<open>moveToV2\<close> (\<^verbatim>\<open>anki/schedv2.py\<close> is not part of the
  sources at hand), which receive the collection and may change any of it.
\<close>

record env =
  intTime_ms :: int
  intTime_s :: int
  time_time :: int
  schema_will_change :: bool
  tr_scheduling_review :: string
  cardConf' :: "card \<Rightarrow> deck_conf"
  moveToV1 :: "collection \<Rightarrow> collection"
  moveToV2 :: "collection \<Rightarrow> collection"

subsection \<open>The storage proxy\<close>

text \<open>
  Modelled from the spec: \<^verbatim>\<open>DBProxy.begin\<close> records the modified timestamp of the moment
  (the "timestamp recorded when the current transaction began") and opens a transaction.
\<close>

definition db_begin :: "dbproxy \<Rightarrow> dbproxy" where
  "db_begin d = d\<lparr>last_begin_at := col_mod (cur d), open_trx := Suc (open_trx d),
                  calls := calls d @ [Begin]\<rparr>"

text \<open>
  Modelled from the spec: \<^verbatim>\<open>DBProxy.commit\<close> makes the pending rows permanent and ends the
  transaction.
\<close>

definition db_commit :: "dbproxy \<Rightarrow> dbproxy" where
  "db_commit d = d\<lparr>committed := cur d, open_trx := 0, calls := calls d @ [Commit]\<rparr>"

text \<open>
  Modelled from the spec: \<^verbatim>\<open>DBProxy.rollback\<close> returns to the rows last made permanent and
  ends the transaction.
\<close>

definition db_rollback :: "dbproxy \<Rightarrow> dbproxy" where
  "db_rollback d = d\<lparr>cur := committed d, open_trx := 0, calls := calls d @ [Rollback]\<rparr>"

text \<open>
  Modelled from the spec: a write by the backend (\<^verbatim>\<open>card.flush()\<close>, \<^verbatim>\<open>note.flush()\<close>, a
  configuration key). Outside a transaction a write is permanent at once.
\<close>

definition db_write :: "(tables \<Rightarrow> tables) \<Rightarrow> dbproxy \<Rightarrow> dbproxy" where
  "db_write f d =
     (let t = f (cur d)
      in d\<lparr>cur := t, committed := (if open_trx d = 0 then t else committed d)\<rparr>)"

text \<open>
  Modelled from the spec: \<^verbatim>\<open>DBProxy.execute\<close> with an \<^verbatim>\<open>update\<close> or \<^verbatim>\<open>delete\<close> statement:
  the write, and the proxy's local mutation flag is raised.
\<close>

definition db_execute :: "(tables \<Rightarrow> tables) \<Rightarrow> dbproxy \<Rightarrow> dbproxy" where
  "db_execute f d = (db_write f d)\<lparr>db_mod := True\<rparr>"

subsection \<open>Scheduler version registry\<close>

definition supportedSchedulerVersions :: "int list" where
  "supportedSchedulerVersions = [1, 2]"

text \<open>\<^verbatim>\<open>self.conf.get("schedVer", 1)\<close>\<close>

definition conf_get_schedVer :: "collection \<Rightarrow> int" where
  "conf_get_schedVer c = (case config_schedVer (cur (db c)) of None \<Rightarrow> 1 | Some v \<Rightarrow> v)"

text \<open>\<^verbatim>\<open>self.conf["schedVer"] = ver\<close>\<close>

definition conf_set_schedVer :: "int \<Rightarrow> collection \<Rightarrow> collection" where
  "conf_set_schedVer ver c = c\<lparr>db := db_write (\<lambda>t. t\<lparr>config_schedVer := Some ver\<rparr>) (db c)\<rparr>"

definition schedVer :: "collection \<Rightarrow> error + int" where
  "schedVer c =
     (let ver = conf_get_schedVer c
      in if ver \<in> set supportedSchedulerVersions then Inr ver
         else Inl UnsupportedSchedulerVersion)"

text \<open>
  Modelled from the spec: the constructors \<^verbatim>\<open>V1Scheduler(col)\<close> and \<^verbatim>\<open>V2Scheduler(col)\<close>
  give a scheduler of that version whose repetition counter starts at 0.
\<close>

definition new_scheduler :: "sched_impl \<Rightarrow> scheduler" where
  "new_scheduler i = \<lparr>impl = i, reps = 0\<rparr>"

definition loadScheduler' :: "collection \<Rightarrow> (error + unit) \<times> collection" where
  "loadScheduler' c =
     (case schedVer c of
        Inl e \<Rightarrow> (Inl e, c)
      | Inr ver \<Rightarrow>
          (Inr (),
           if ver = 1 then c\<lparr>sched := new_scheduler V1Scheduler\<rparr>
           else if ver = 2 then c\<lparr>sched := new_scheduler V2Scheduler\<rparr>
           else c))"

subsection \<open>Transaction guard\<close>

text \<open>The properties \<^verbatim>\<open>scm\<close> and \<^verbatim>\<open>mod\<close> write their column with \<^verbatim>\<open>self.db.execute\<close>.\<close>

definition set_scm :: "int \<Rightarrow> collection \<Rightarrow> collection" where
  "set_scm val c = c\<lparr>db := db_execute (\<lambda>t. t\<lparr>col_scm := val\<rparr>) (db c)\<rparr>"

definition set_mod :: "int \<Rightarrow> collection \<Rightarrow> collection" where
  "set_mod val c = c\<lparr>db := db_execute (\<lambda>t. t\<lparr>col_mod := val\<rparr>) (db c)\<rparr>"

definition setMod :: "int option \<Rightarrow> collection \<Rightarrow> collection" where
  "setMod m c = c"

definition modified_after_begin :: "collection \<Rightarrow> bool" where
  "modified_after_begin c \<longleftrightarrow> last_begin_at (db c) \<noteq> col_mod (cur (db c))"

definition clearUndo :: "collection \<Rightarrow> collection" where
  "clearUndo c = c\<lparr>undo' := None\<rparr>"

text \<open>\<^verbatim>\<open>if name:\<close> holds for a string that is present and not empty.\<close>

definition markOp' :: "string option \<Rightarrow> collection \<Rightarrow> collection" where
  "markOp' name c =
     (case name of
        Some n \<Rightarrow>
          (if n \<noteq> [] then c\<lparr>undo' := Some (Checkpoint n)\<rparr>
           else (case undo' c of Some (Checkpoint l) \<Rightarrow> clearUndo c | _ \<Rightarrow> c))
      | None \<Rightarrow> (case undo' c of Some (Checkpoint l) \<Rightarrow> clearUndo c | _ \<Rightarrow> c))"

definition save :: "env \<Rightarrow> string option \<Rightarrow> int option \<Rightarrow> bool \<Rightarrow> collection \<Rightarrow> collection" where
  "save e name m trx c =
     (let c1 =
        (if db_mod (db c) \<or> modified_after_begin c then
           (let c2 = set_mod (case m of None \<Rightarrow> intTime_ms e | Some v \<Rightarrow> v) c;
                c3 = c2\<lparr>db := db_commit (db c2)\<rparr>;
                c4 = c3\<lparr>db := (db c3)\<lparr>db_mod := False\<rparr>\<rparr>
            in if trx then c4\<lparr>db := db_begin (db c4)\<rparr> else c4)
         else if \<not> trx then c\<lparr>db := db_rollback (db c)\<rparr>
         else c)
      in (markOp' name c1)\<lparr>lastSave' := time_time e\<rparr>)"

definition rollback :: "collection \<Rightarrow> collection" where
  "rollback c = c\<lparr>db := db_begin (db_rollback (db c))\<rparr>"

definition schemaChanged :: "collection \<Rightarrow> bool" where
  "schemaChanged c \<longleftrightarrow> col_scm (cur (db c)) > col_ls (cur (db c))"

definition modSchema :: "env \<Rightarrow> bool \<Rightarrow> collection \<Rightarrow> (error + unit) \<times> collection" where
  "modSchema e check c =
     (if \<not> schemaChanged c \<and> (check \<and> \<not> schema_will_change e) then (Inl AbortSchemaMod, c)
      else (Inr (), save e None None True (setMod None (set_scm (intTime_ms e) c))))"

definition usn :: "collection \<Rightarrow> int" where
  "usn c = (if server c then col_usn (cur (db c)) else - 1)"

subsection \<open>Notes and cards\<close>

text \<open>
  Modelled from the spec: \<^verbatim>\<open>card.note().hasTag(tag)\<close> (\<^verbatim>\<open>anki/cards.py\<close> and
  \<^verbatim>\<open>anki/notes.py\<close> are not part of the sources at hand): whether the note of the card
  carries the tag. The note object and its row are one store here.
\<close>

definition hasTag :: "collection \<Rightarrow> card \<Rightarrow> string \<Rightarrow> bool" where
  "hasTag c k tag \<longleftrightarrow> tag \<in> set (note_tags (cur (db c)) (nid k))"

text \<open>
  Modelled from the spec: \<^verbatim>\<open>card.note().delTag(tag)\<close> followed by \<^verbatim>\<open>card.note().flush()\<close>:
  the tag is removed from the note of the card and the note is written.
\<close>

definition delTag_flush :: "card \<Rightarrow> string \<Rightarrow> collection \<Rightarrow> collection" where
  "delTag_flush k tag c =
     c\<lparr>db := db_write
          (\<lambda>t. t\<lparr>note_tags := (note_tags t)(nid k := filter (\<lambda>x. x \<noteq> tag) (note_tags t (nid k)))\<rparr>)
          (db c)\<rparr>"

text \<open>
  Modelled from the spec: \<^verbatim>\<open>card.flush()\<close> restores the entire row of the card (a full
  overwrite of the row with that id).
\<close>

definition card_flush :: "card \<Rightarrow> collection \<Rightarrow> collection" where
  "card_flush k c = c\<lparr>db := db_write (\<lambda>t. t\<lparr>cards := (cards t)(card_id k \<mapsto> k)\<rparr>) (db c)\<rparr>"

text \<open>
  \<^verbatim>\<open>select id from revlog where cid = ? order by id desc limit 1\<close>: the greatest id among the
  entries of the card, \<open>None\<close> when it has none.
\<close>

definition last_revlog_id :: "int \<Rightarrow> tables \<Rightarrow> int option" where
  "last_revlog_id i t =
     (case filter (\<lambda>r. snd r = i) (revlog t) of
        [] \<Rightarrow> None
      | r # rs \<Rightarrow> Some (fold max (map fst rs) (fst r)))"

text \<open>\<^verbatim>\<open>delete from revlog where id = ?\<close>: no row has the id \<^verbatim>\<open>None\<close>.\<close>

definition delete_revlog :: "int option \<Rightarrow> tables \<Rightarrow> tables" where
  "delete_revlog l t =
     (case l of None \<Rightarrow> t | Some i \<Rightarrow> t\<lparr>revlog := filter (\<lambda>r. fst r \<noteq> i) (revlog t)\<rparr>)"

text \<open>
  \<^verbatim>\<open>update cards set queue=type,mod=?,usn=? where queue=-2 and nid=?\<close>: what the
  statement makes of one row, and of the table.
\<close>

definition restore_sibling_row :: "int \<Rightarrow> int \<Rightarrow> int \<Rightarrow> card \<Rightarrow> card" where
  "restore_sibling_row now u n r =
     (if queue r = - 2 \<and> nid r = n then r\<lparr>queue := ctype r, cmod := now, cusn := u\<rparr> else r)"

definition restore_siblings :: "int \<Rightarrow> int \<Rightarrow> int \<Rightarrow> tables \<Rightarrow> tables" where
  "restore_siblings now u n t =
     t\<lparr>cards := (\<lambda>i. map_option (restore_sibling_row now u n) (cards t i))\<rparr>"

text \<open>
  Modelled from the spec: the queue constants of \<^verbatim>\<open>anki/consts.py\<close> (not part of the sources
  at hand): the learning bucket, and the day-learning and preview buckets that are folded
  into it.
\<close>

definition QUEUE_TYPE_LRN :: int where "QUEUE_TYPE_LRN = 1"
definition QUEUE_TYPE_DAY_LEARN_RELEARN :: int where "QUEUE_TYPE_DAY_LEARN_RELEARN = 3"
definition QUEUE_TYPE_PREVIEW :: int where "QUEUE_TYPE_PREVIEW = 4"

text \<open>
  Subscript of a tuple: an index below zero counts from the end, and an index outside the
  tuple raises \<^verbatim>\<open>IndexError\<close>.
\<close>

definition tuple_index :: "'a list \<Rightarrow> int \<Rightarrow> error + 'a" where
  "tuple_index xs i =
     (if 0 \<le> i \<and> i < int (length xs) then Inr (xs ! nat i)
      else if i < 0 \<and> - int (length xs) \<le> i then Inr (xs ! nat (int (length xs) + i))
      else Inl IndexError)"

text \<open>
  Modelled from the spec: \<^verbatim>\<open>sched._updateStats(card, type, cnt)\<close> adds \<open>cnt\<close> to the review
  count of the bucket.
\<close>

definition updateStats' :: "card \<Rightarrow> string \<Rightarrow> int \<Rightarrow> collection \<Rightarrow> collection" where
  "updateStats' k type cnt c = c\<lparr>stats := (stats c)(type := stats c type + cnt)\<rparr>"

subsection \<open>Undo\<close>

definition undoName :: "collection \<Rightarrow> string option" where
  "undoName c =
     (case undo' c of
        None \<Rightarrow> None
      | Some (Review name data wasLeech) \<Rightarrow> Some name
      | Some (Checkpoint name) \<Rightarrow> Some name)"

definition markReview :: "env \<Rightarrow> card \<Rightarrow> collection \<Rightarrow> collection" where
  "markReview e k c =
     (let (old, c1) =
        (case undo' c of
           None \<Rightarrow> ([], c)
         | Some u \<Rightarrow>
             ((case u of Review name data w \<Rightarrow> data | Checkpoint name \<Rightarrow> []), clearUndo c));
          wasLeech = hasTag c1 k ''leech''
      in c1\<lparr>undo' := Some (Review (tr_scheduling_review e) (old @ [k]) wasLeech)\<rparr>)"

text \<open>
  \<^verbatim>\<open>data.pop()\<close> takes the last snapshot out of the list held by the record, in place; the
  subscript of the bucket names can raise after the card has been restored, and the
  collection returned with the exception shows what was done before.
\<close>

definition undoReview' :: "env \<Rightarrow> collection \<Rightarrow> (error + int) \<times> collection" where
  "undoReview' e c =
     (case undo' c of
        None \<Rightarrow> (Inl TypeError, c)
      | Some (Checkpoint name) \<Rightarrow> (Inl IndexError, c)
      | Some (Review name data wasLeech) \<Rightarrow>
          (if data = [] then (Inl IndexError, c)
           else
             (let k = last data;
                  c1 = c\<lparr>undo' := Some (Review name (butlast data) wasLeech)\<rparr>;
                  c2 = (if butlast data = [] then clearUndo c1 else c1);
                  c3 = (if \<not> wasLeech \<and> hasTag c2 k ''leech'' then delTag_flush k ''leech'' c2
                        else c2);
                  c4 = card_flush k c3;
                  conf = cardConf' e k;
                  previewing = (dyn conf \<and> \<not> resched conf);
                  c5 = (if \<not> previewing then
                          (let l = last_revlog_id (card_id k) (cur (db c4))
                           in c4\<lparr>db := db_execute (delete_revlog l) (db c4)\<rparr>)
                        else c4);
                  c6 = c5\<lparr>db := db_execute (restore_siblings (intTime_s e) (usn c5) (nid k)) (db c5)\<rparr>;
                  n = (if queue k \<in> {QUEUE_TYPE_DAY_LEARN_RELEARN, QUEUE_TYPE_PREVIEW}
                       then QUEUE_TYPE_LRN else queue k)
              in (case tuple_index [''new'', ''lrn'', ''rev''] n of
                    Inl x \<Rightarrow> (Inl x, c6)
                  | Inr type \<Rightarrow>
                      (let c7 = updateStats' k type (- 1) c6;
                           c8 = c7\<lparr>sched := (sched c7)\<lparr>reps := reps (sched c7) - 1\<rparr>\<rparr>
                       in (Inr (card_id k), c8))))))"

definition undoOp' :: "collection \<Rightarrow> collection" where
  "undoOp' c = clearUndo (rollback c)"

text \<open>
  \<^verbatim>\<open>self._undo[0]\<close> raises \<^verbatim>\<open>TypeError\<close> when \<^verbatim>\<open>_undo\<close> is \<^verbatim>\<open>None\<close>. A review undo returns
  the id of the card, a checkpoint undo returns \<^verbatim>\<open>None\<close>.
\<close>

definition undo :: "env \<Rightarrow> collection \<Rightarrow> (error + int option) \<times> collection" where
  "undo e c =
     (case undo' c of
        None \<Rightarrow> (Inl TypeError, c)
      | Some (Review name data wasLeech) \<Rightarrow>
          (case undoReview' e c of
             (Inl x, c') \<Rightarrow> (Inl x, c')
           | (Inr i, c') \<Rightarrow> (Inr (Some i), c'))
      | Some (Checkpoint name) \<Rightarrow> (Inr None, undoOp' c))"

subsection \<open>Changing the scheduler version\<close>

text \<open>
  \<^verbatim>\<open>v2Sched = V2Scheduler(self)\<close> followed by \<^verbatim>\<open>v2Sched.moveToV1()\<close> or \<^verbatim>\<open>v2Sched.moveToV2()\<close>:
  the routine runs on the collection, and the call is logged.
\<close>

definition run_migration :: "env \<Rightarrow> int \<Rightarrow> collection \<Rightarrow> collection" where
  "run_migration e ver c =
     (if ver = 1 then (moveToV1 e c)\<lparr>migrations := migrations c @ [ToV1]\<rparr>
      else (moveToV2 e c)\<lparr>migrations := migrations c @ [ToV2]\<rparr>)"

definition changeSchedulerVer :: "env \<Rightarrow> int \<Rightarrow> collection \<Rightarrow> (error + unit) \<times> collection" where
  "changeSchedulerVer e ver c =
     (case schedVer c of
        Inl x \<Rightarrow> (Inl x, c)
      | Inr current \<Rightarrow>
          (if ver = current then (Inr (), c)
           else if ver \<notin> set supportedSchedulerVersions then (Inl UnsupportedSchedulerVersion, c)
           else
             (case modSchema e True c of
                (Inl x, c1) \<Rightarrow> (Inl x, c1)
              | (Inr u, c1) \<Rightarrow>
                  (let c2 = clearUndo c1;
                       c3 = run_migration e ver c2;
                       c4 = conf_set_schedVer ver c3;
                       c5 = setMod None c4
                   in loadScheduler' c5))))"

subsection \<open>Sequences of calls\<close>

text \<open>\<^verbatim>\<open>markReview(c1); ...; markReview(cn)\<close>\<close>

fun markReviews :: "env \<Rightarrow> card list \<Rightarrow> collection \<Rightarrow> collection" where
  "markReviews e [] c = c"
| "markReviews e (k # ks) c = markReviews e ks (markReview e k c)"

text \<open>
  \<open>n\<close> calls of \<^verbatim>\<open>undo()\<close> in a row, with the values they return; an exception ends the
  sequence.
\<close>

fun undo_times :: "env \<Rightarrow> nat \<Rightarrow> collection \<Rightarrow> (error + int option list) \<times> collection" where
  "undo_times e 0 c = (Inr [], c)"
| "undo_times e (Suc n) c =
     (case undo e c of
        (Inl x, c1) \<Rightarrow> (Inl x, c1)
      | (Inr r, c1) \<Rightarrow>
          (case undo_times e n c1 of
             (Inl x, c2) \<Rightarrow> (Inl x, c2)
           | (Inr rs, c2) \<Rightarrow> (Inr (r # rs), c2)))"


text \<open>The snapshots of reviews that the undo record holds: the list the source calls \<^verbatim>\<open>old\<close>.\<close>

definition pending_reviews :: "collection \<Rightarrow> card list" where
  "pending_reviews c = (case undo' c of Some (Review name data w) \<Rightarrow> data | _ \<Rightarrow> [])"

subsection \<open>Example collections\<close>

text \<open>
  A collection at scheduler version 1 (the key is absent) inside one open transaction, with
  nothing pending, whose schema has not diverged from the last sync (\<open>scm = 50\<close>,
  \<open>ls = 70\<close>). Card 1 is a review card whose note 1 carries the tag \<^verbatim>\<open>leech\<close>; card 2 is a
  new card whose note 2 carries no tag.
\<close>

definition k1 :: card where
  "k1 = \<lparr>card_id = 1, nid = 1, queue = 2, ctype = 2, cmod = 0, cusn = 0\<rparr>"

definition k2 :: card where
  "k2 = \<lparr>card_id = 2, nid = 2, queue = 0, ctype = 0, cmod = 0, cusn = 0\<rparr>"

definition example_tables :: tables where
  "example_tables =
     \<lparr>col_mod = 100, col_scm = 50, col_ls = 70, col_usn = 3,
      cards = [1 \<mapsto> k1, 2 \<mapsto> k2],
      note_tags = (\<lambda>n. if n = 1 then [''leech''] else []),
      revlog = [(10, 1), (11, 2)], config_schedVer = None\<rparr>"

definition example_db :: dbproxy where
  "example_db =
     \<lparr>db_mod = False, last_begin_at = 100, cur = example_tables,
      committed = example_tables, open_trx = 1, calls = [Begin]\<rparr>"

definition example_col :: collection where
  "example_col =
     \<lparr>db = example_db, server = False, sched = new_scheduler V1Scheduler,
      undo' = None, lastSave' = 0, stats = (\<lambda>b. 0), migrations = []\<rparr>"

text \<open>
  An environment whose confirmation hook refuses and whose migration routines leave the
  collection object as it is.
\<close>

definition example_env :: env where
  "example_env =
     \<lparr>intTime_ms = 200000, intTime_s = 200, time_time = 200,
      schema_will_change = False, tr_scheduling_review = ''Review'',
      cardConf' = (\<lambda>k. \<lparr>dyn = False, resched = True\<rparr>),
      moveToV1 = (\<lambda>c. c), moveToV2 = (\<lambda>c. c)\<rparr>"

text \<open>
  An environment whose hook agrees and whose migration to version 2 saves under a name
  (\<^verbatim>\<open>col.save("Migrate")\<close> records the checkpoint \<^verbatim>\<open>[2, "Migrate"]\<close>).
\<close>

definition recording_env :: env where
  "recording_env =
     example_env\<lparr>schema_will_change := True,
                 moveToV2 := (\<lambda>c. save example_env (Some ''Migrate'') None True c)\<rparr>"

section \<open>Properties\<close>

subsection \<open>Auxiliary facts\<close>

lemmas example_defs = k1_def k2_def example_tables_def example_db_def example_col_def
  example_env_def recording_env_def

lemma undo_markOp:
  "undo' (markOp' name c) =
     (if name \<noteq> None \<and> name \<noteq> Some [] then Some (Checkpoint (the name))
      else (case undo' c of Some (Checkpoint l) \<Rightarrow> None | u \<Rightarrow> u))"
  by (simp add: markOp'_def clearUndo_def split: option.split undo_record.split)

lemma db_markOp [simp]: "db (markOp' name c) = db c"
  by (simp add: markOp'_def clearUndo_def split: option.split undo_record.split)

lemma undo_save: "undo' (save e name m trx c) = undo' (markOp' name c)"
  by (simp add: save_def Let_def markOp'_def clearUndo_def set_mod_def
      split: option.split undo_record.split)

lemma db_save_clean:
  "\<not> db_mod (db c) \<Longrightarrow> \<not> modified_after_begin c \<Longrightarrow>
   db (save e name m trx c) = (if trx then db c else db_rollback (db c))"
  by (simp add: save_def Let_def)


lemma undo_frame [simp]:
  "undo' (delTag_flush k t c) = undo' c"
  "undo' (card_flush k c) = undo' c"
  "undo' (updateStats' k b n c) = undo' c"
  by (simp_all add: delTag_flush_def card_flush_def updateStats'_def)

lemma bucket_ok:
  "- 3 \<le> q \<Longrightarrow> q \<le> 4 \<Longrightarrow>
   \<exists>b. tuple_index [''new'', ''lrn'', ''rev'']
     (if q \<in> {QUEUE_TYPE_DAY_LEARN_RELEARN, QUEUE_TYPE_PREVIEW} then QUEUE_TYPE_LRN else q) = Inr b"
  by (simp add: tuple_index_def QUEUE_TYPE_DAY_LEARN_RELEARN_def QUEUE_TYPE_PREVIEW_def
      QUEUE_TYPE_LRN_def)

lemma undoReview_last:
  assumes "undo' c = Some (Review name (es @ [k]) w)" and "- 3 \<le> queue k" and "queue k \<le> 4"
  shows "fst (undoReview' e c) = Inr (card_id k) \<and>
         undo' (snd (undoReview' e c)) = (if es = [] then None else Some (Review name es w))"
proof -
  from bucket_ok [OF assms(2,3)] obtain b where
    b: "tuple_index [''new'', ''lrn'', ''rev'']
     (if queue k \<in> {QUEUE_TYPE_DAY_LEARN_RELEARN, QUEUE_TYPE_PREVIEW} then QUEUE_TYPE_LRN else queue k) = Inr b"
    by blast
  show ?thesis
    using assms(1) b by (simp add: undoReview'_def Let_def clearUndo_def)
qed

lemma undo_review_last:
  assumes "undo' c = Some (Review name (es @ [k]) w)" and "- 3 \<le> queue k" and "queue k \<le> 4"
  shows "\<exists>c1. undo e c = (Inr (Some (card_id k)), c1) \<and>
         undo' c1 = (if es = [] then None else Some (Review name es w))"
proof -
  obtain r c1 where u: "undoReview' e c = (r, c1)" by (cases "undoReview' e c")
  with undoReview_last [OF assms, of e] have "r = Inr (card_id k)"
    and "undo' c1 = (if es = [] then None else Some (Review name es w))" by simp_all
  then show ?thesis using assms(1) u by (simp add: undo_def)
qed


lemma markReview_undo:
  "undo' (markReview e k c) =
     Some (Review (tr_scheduling_review e) (pending_reviews c @ [k]) (hasTag c k ''leech''))"
  by (simp add: markReview_def pending_reviews_def clearUndo_def hasTag_def
      split: option.split undo_record.split)


lemma save_frame [simp]:
  "migrations (save e name m trx c) = migrations c"
  "sched (save e name m trx c) = sched c"
  by (simp_all add: save_def Let_def markOp'_def clearUndo_def set_mod_def
      split: option.split undo_record.split)

lemma modSchema_ok:
  "schemaChanged c \<or> schema_will_change e \<Longrightarrow>
   modSchema e True c = (Inr (), save e None None True (set_scm (intTime_ms e) c))"
  by (auto simp: modSchema_def setMod_def)

lemma loadScheduler_after_set:
  "ver \<in> {1, 2} \<Longrightarrow>
   loadScheduler' (setMod None (conf_set_schedVer ver c)) =
     (Inr (), (conf_set_schedVer ver c)\<lparr>sched := new_scheduler (if ver = 1 then V1Scheduler else V2Scheduler)\<rparr>)"
  by (auto simp: loadScheduler'_def schedVer_def conf_get_schedVer_def conf_set_schedVer_def
      db_write_def setMod_def supportedSchedulerVersions_def Let_def)

lemma changeSchedulerVer_ok:
  assumes "schedVer c = Inr current" and "ver \<in> {1, 2}" and "ver \<noteq> current"
    and "schemaChanged c \<or> schema_will_change e"
  shows "changeSchedulerVer e ver c =
     (Inr (), (conf_set_schedVer ver
        (run_migration e ver (clearUndo (save e None None True (set_scm (intTime_ms e) c)))))
        \<lparr>sched := new_scheduler (if ver = 1 then V1Scheduler else V2Scheduler)\<rparr>)"
  using assms(1-3)
  by (simp add: changeSchedulerVer_def modSchema_ok [OF assms(4)] supportedSchedulerVersions_def
      Let_def loadScheduler_after_set [OF assms(2)] del: insert_iff)

lemma db_markReview [simp]: "db (markReview e k c) = db c"
  by (simp add: markReview_def clearUndo_def split: option.split undo_record.split)

lemma undoReview_note_tags:
  assumes "undo' c = Some (Review name (es @ [k]) w)" and "- 3 \<le> queue k" and "queue k \<le> 4"
  shows "note_tags (cur (db (snd (undoReview' e c)))) =
     (if \<not> w \<and> hasTag c k ''leech''
      then (note_tags (cur (db c)))(nid k := filter (\<lambda>x. x \<noteq> ''leech'') (note_tags (cur (db c)) (nid k)))
      else note_tags (cur (db c)))"
proof -
  from bucket_ok [OF assms(2,3)] obtain b where
    b: "tuple_index [''new'', ''lrn'', ''rev'']
     (if queue k \<in> {QUEUE_TYPE_DAY_LEARN_RELEARN, QUEUE_TYPE_PREVIEW} then QUEUE_TYPE_LRN else queue k) = Inr b"
    by blast
  show ?thesis
    using assms(1) b
    by (simp add: undoReview'_def Let_def clearUndo_def hasTag_def delTag_flush_def card_flush_def
        db_execute_def db_write_def updateStats'_def restore_siblings_def delete_revlog_def
        split: option.split)
qed

lemma undo_review_step:
  assumes "undo' c = Some (Review name (es @ [k]) w)" and "- 3 \<le> queue k" and "queue k \<le> 4"
  shows "\<exists>c1. undo e c = (Inr (Some (card_id k)), c1) \<and>
     undo' c1 = (if es = [] then None else Some (Review name es w)) \<and>
     note_tags (cur (db c1)) =
       (if \<not> w \<and> hasTag c k ''leech''
        then (note_tags (cur (db c)))(nid k := filter (\<lambda>x. x \<noteq> ''leech'') (note_tags (cur (db c)) (nid k)))
        else note_tags (cur (db c)))"
proof -
  obtain r c1 where u: "undoReview' e c = (r, c1)" by (cases "undoReview' e c")
  with undoReview_last [OF assms, of e] have r: "r = Inr (card_id k)"
    and "undo' c1 = (if es = [] then None else Some (Review name es w))" by simp_all
  moreover from undoReview_note_tags [OF assms, of e] u
  have "note_tags (cur (db c1)) =
     (if \<not> w \<and> hasTag c k ''leech''
      then (note_tags (cur (db c)))(nid k := filter (\<lambda>x. x \<noteq> ''leech'') (note_tags (cur (db c)) (nid k)))
      else note_tags (cur (db c)))" by simp
  ultimately show ?thesis using assms(1) u by (simp add: undo_def)
qed

lemma usn_frame [simp]:
  "usn (delTag_flush k t c) = usn c"
  "usn (card_flush k c) = usn c"
  "usn (updateStats' k b n c) = usn c"
  "usn (clearUndo c) = usn c"
  by (simp_all add: usn_def delTag_flush_def card_flush_def updateStats'_def clearUndo_def
      db_write_def Let_def)





subsection \<open>The claims\<close>




text \<open>
  Claim C2. Whatever the undo record is, \<^verbatim>\<open>_markOp(name)\<close> and \<^verbatim>\<open>save(name)\<close> with a label
  that is not empty replace it by the checkpoint record with that label, so that review
  history is dropped. Without a label the record is cleared when it is a checkpoint record
  and is left as it is otherwise: a review record keeps its entries and its leech flag.
\<close>

theorem markOp_checkpoint_rules:
  "(label \<noteq> [] \<longrightarrow>
      undo' (markOp' (Some label) c) = Some (Checkpoint label) \<and>
      undo' (save e (Some label) m trx c) = Some (Checkpoint label)) \<and>
   ((\<exists>l. undo' c = Some (Checkpoint l)) \<longrightarrow>
      undo' (markOp' None c) = None \<and> undo' (save e None m trx c) = None) \<and>
   ((\<nexists>l. undo' c = Some (Checkpoint l)) \<longrightarrow>
      undo' (markOp' None c) = undo' c \<and> undo' (save e None m trx c) = undo' c) \<and>
   (undo' c = Some (Review name data w) \<longrightarrow>
      undo' (markOp' None c) = Some (Review name data w) \<and>
      undo' (save e None m trx c) = Some (Review name data w))"
  by (auto simp: undo_save undo_markOp split: option.splits undo_record.splits)

theorem markOp_checkpoint_rules_witness:
  "''Add'' \<noteq> [] \<and>
   undo' (markOp' (Some ''Add'') (example_col\<lparr>undo' := Some (Review ''Review'' [k1] True)\<rparr>)) =
     Some (Checkpoint ''Add'') \<and>
   undo' (save example_env (Some ''Add'') None True
     (example_col\<lparr>undo' := Some (Review ''Review'' [k1] True)\<rparr>)) = Some (Checkpoint ''Add'') \<and>
   undo' (markOp' None (example_col\<lparr>undo' := Some (Checkpoint ''Add'')\<rparr>)) = None \<and>
   undo' (save example_env None None True (example_col\<lparr>undo' := Some (Checkpoint ''Add'')\<rparr>)) = None \<and>
   undo' (markOp' None (example_col\<lparr>undo' := Some (Review ''Review'' [k1] True)\<rparr>)) =
     Some (Review ''Review'' [k1] True) \<and>
   undo' (save example_env None None True
     (example_col\<lparr>undo' := Some (Review ''Review'' [k1] True)\<rparr>)) = Some (Review ''Review'' [k1] True)"
  using markOp_checkpoint_rules [of "''Add''" "example_col\<lparr>undo' := Some (Review ''Review'' [k1] True)\<rparr>"
      example_env None True "''Review''" "[k1]" True]
    markOp_checkpoint_rules [of "''Add''" "example_col\<lparr>undo' := Some (Checkpoint ''Add'')\<rparr>"
      example_env None True "''Review''" "[k1]" True]
  by simp

text \<open>
  Claim C3, as amended. \<^verbatim>\<open>markReview(card)\<close> appends the snapshot to the entries of a review
  record, and starts from no entries when the record is empty or a checkpoint. In both cases
  the leech flag of the resulting record says whether the note of the card marked now
  carries the tag \<^verbatim>\<open>leech\<close>: the flag of the record that was there is not kept.
\<close>

theorem markReview_record:
  "undo' (markReview e k c) =
     Some (Review (tr_scheduling_review e)
       ((case undo' c of Some (Review name data w) \<Rightarrow> data | _ \<Rightarrow> []) @ [k])
       (hasTag c k ''leech''))"
  by (simp add: markReview_def clearUndo_def hasTag_def split: option.split undo_record.split)

theorem markReview_record_witness:
  "undo' (markReview example_env k2 (example_col\<lparr>undo' := Some (Review ''Review'' [k1] True)\<rparr>)) =
     Some (Review ''Review'' [k1, k2] False) \<and>
   undo' (markReview example_env k1 (example_col\<lparr>undo' := Some (Checkpoint ''Add'')\<rparr>)) =
     Some (Review ''Review'' [k1] True)"
  using markReview_record [of example_env k2 "example_col\<lparr>undo' := Some (Review ''Review'' [k1] True)\<rparr>"]
    markReview_record [of example_env k1 "example_col\<lparr>undo' := Some (Checkpoint ''Add'')\<rparr>"]
  by (simp add: example_defs hasTag_def)

theorem markReview_keeps_flag_counterexample:
  "undo' (example_col\<lparr>undo' := Some (Review ''Review'' [k1] True)\<rparr>) =
     Some (Review ''Review'' [k1] True) \<and>
   undo' (markReview example_env k2 (example_col\<lparr>undo' := Some (Review ''Review'' [k1] True)\<rparr>)) \<noteq>
     Some (Review ''Review'' [k1, k2] True)"
  by (simp add: markReview_def clearUndo_def hasTag_def example_defs)



text \<open>
  Claim C5. When the schema has not diverged from the last sync (\<open>scm \<le> ls\<close>) and the
  confirmation hook refuses, \<^verbatim>\<open>modSchema(check=True)\<close> raises \<^verbatim>\<open>AnkiError("abortSchemaMod")\<close>,
  and so does \<^verbatim>\<open>changeSchedulerVer\<close> to another supported version; the collection is then
  exactly the one before the call: persisted version, schema timestamp, scheduler, storage
  and undo record are unchanged.
\<close>

theorem changeSchedulerVer_refused:
  assumes "col_scm (cur (db c)) \<le> col_ls (cur (db c))"
    and "\<not> schema_will_change e"
    and "schedVer c = Inr current" and "ver \<noteq> current" and "ver \<in> {1, 2}"
  shows "modSchema e True c = (Inl AbortSchemaMod, c) \<and>
         changeSchedulerVer e ver c = (Inl AbortSchemaMod, c)"
  using assms
  by (auto simp: changeSchedulerVer_def modSchema_def schemaChanged_def supportedSchedulerVersions_def)

theorem changeSchedulerVer_refused_witness:
  "col_scm (cur (db example_col)) \<le> col_ls (cur (db example_col)) \<and>
   \<not> schema_will_change example_env \<and> schedVer example_col = Inr 1 \<and> (2::int) \<noteq> 1 \<and>
   (2::int) \<in> {1, 2} \<and>
   modSchema example_env True example_col = (Inl AbortSchemaMod, example_col) \<and>
   changeSchedulerVer example_env 2 example_col = (Inl AbortSchemaMod, example_col)"
  using changeSchedulerVer_refused [of example_col example_env 1 2]
  by (simp add: example_defs schedVer_def conf_get_schedVer_def supportedSchedulerVersions_def)

text \<open>
  Claim C6. \<^verbatim>\<open>changeSchedulerVer(ver)\<close> returns with the collection unchanged when \<open>ver\<close> is
  the current version, and raises \<^verbatim>\<open>Exception("Unsupported scheduler version")\<close> with the
  collection unchanged when \<open>ver\<close> is neither 1 nor 2.
\<close>

theorem changeSchedulerVer_same_or_unsupported:
  "(schedVer c = Inr ver \<longrightarrow> changeSchedulerVer e ver c = (Inr (), c)) \<and>
   (ver \<notin> {1, 2} \<longrightarrow> changeSchedulerVer e ver c = (Inl UnsupportedSchedulerVersion, c))"
  by (auto simp: changeSchedulerVer_def schedVer_def supportedSchedulerVersions_def Let_def
      split: sum.splits if_splits)

theorem changeSchedulerVer_same_or_unsupported_witness:
  "schedVer example_col = Inr 1 \<and>
   changeSchedulerVer example_env 1 example_col = (Inr (), example_col) \<and>
   (3::int) \<notin> {1, 2} \<and>
   changeSchedulerVer example_env 3 example_col = (Inl UnsupportedSchedulerVersion, example_col)"
  using changeSchedulerVer_same_or_unsupported [of example_col 1 example_env]
    changeSchedulerVer_same_or_unsupported [of example_col 3 example_env]
  by (simp add: example_defs schedVer_def conf_get_schedVer_def supportedSchedulerVersions_def)

text \<open>
  Claim C9, as amended. No assertion and no exception of the class guards \<^verbatim>\<open>undo()\<close>: it
  fails with the \<^verbatim>\<open>TypeError\<close> of the interpreter, at the subscript of \<^verbatim>\<open>None\<close>, exactly
  when the undo record is empty, which is exactly when \<^verbatim>\<open>undoName()\<close> returns \<^verbatim>\<open>None\<close>. The
  failure comes before any change: the collection is the one before the call. In no state
  does \<^verbatim>\<open>undo()\<close> raise one of the two exceptions that the class raises itself.
\<close>

theorem undo_empty_record:
  "(undoName c = None \<longleftrightarrow> undo' c = None) \<and>
   (fst (undo e c) = Inl TypeError \<longleftrightarrow> undo' c = None) \<and>
   (undo' c = None \<longrightarrow> snd (undo e c) = c) \<and>
   fst (undo e c) \<noteq> Inl UnsupportedSchedulerVersion \<and>
   fst (undo e c) \<noteq> Inl AbortSchemaMod"
proof (intro conjI impI)
  show "(undoName c = None) = (undo' c = None)"
    by (simp add: undoName_def split: option.split undo_record.split)
  show "(fst (undo e c) = Inl TypeError) = (undo' c = None)"
    by (auto simp: undo_def undoReview'_def tuple_index_def Let_def
        split: option.splits undo_record.splits if_splits sum.splits prod.splits)
  show "snd (undo e c) = c" if "undo' c = None"
    using that by (simp add: undo_def)
  show "fst (undo e c) \<noteq> Inl UnsupportedSchedulerVersion"
    by (auto simp: undo_def undoReview'_def tuple_index_def Let_def
        split: option.splits undo_record.splits if_splits sum.splits prod.splits)
  show "fst (undo e c) \<noteq> Inl AbortSchemaMod"
    by (auto simp: undo_def undoReview'_def tuple_index_def Let_def
        split: option.splits undo_record.splits if_splits sum.splits prod.splits)
qed

theorem undo_empty_record_witness:
  "undo' example_col = None \<and> undoName example_col = None \<and>
   fst (undo example_env example_col) = Inl TypeError \<and>
   snd (undo example_env example_col) = example_col \<and>
   undo' (markReview example_env k1 example_col) \<noteq> None \<and>
   undoName (markReview example_env k1 example_col) \<noteq> None \<and>
   fst (undo example_env (markReview example_env k1 example_col)) \<noteq> Inl TypeError"
  using undo_empty_record [of example_col example_env]
    undo_empty_record [of "markReview example_env k1 example_col" example_env]
  by (simp add: example_col_def markReview_undo)

text \<open>
  A caller that catches the exception goes on with the collection as it was: the next
  review is marked and undone as usual.
\<close>

theorem undo_empty_record_handled_counterexample:
  "undoName example_col = None \<and>
   undo example_env example_col = (Inl TypeError, example_col) \<and>
   fst (undo example_env (markReview example_env k1 (snd (undo example_env example_col)))) =
     Inr (Some 1)"
proof -
  have n: "undo' example_col = None" by (simp add: example_col_def)
  then have u: "undo example_env example_col = (Inl TypeError, example_col)"
    by (simp add: undo_def)
  have m: "undo' (markReview example_env k1 example_col) =
      Some (Review ''Review'' ([] @ [k1]) True)"
    by (simp add: markReview_undo pending_reviews_def n hasTag_def example_defs)
  have q: "- 3 \<le> queue k1" "queue k1 \<le> 4" by (simp_all add: k1_def)
  from undo_review_last [OF m q, of example_env] have
    "fst (undo example_env (markReview example_env k1 example_col)) = Inr (Some 1)"
    by (auto simp: k1_def)
  with n u show ?thesis by (simp add: undoName_def)
qed

text \<open>
  Claim C10. When the undo record is a checkpoint record, \<^verbatim>\<open>undo()\<close> returns \<^verbatim>\<open>None\<close>, calls
  rollback and then begin on the storage, and clears the record: afterwards exactly one
  transaction is open, on the rows last made permanent, and the undo record is empty.
\<close>

theorem undo_checkpoint_reopens:
  assumes "undo' c = Some (Checkpoint l)"
  shows "fst (undo e c) = Inr None \<and>
         undo' (snd (undo e c)) = None \<and>
         open_trx (db (snd (undo e c))) = 1 \<and>
         calls (db (snd (undo e c))) = calls (db c) @ [Rollback, Begin] \<and>
         cur (db (snd (undo e c))) = committed (db c)"
  using assms
  by (simp add: undo_def undoOp'_def rollback_def clearUndo_def db_begin_def db_rollback_def)

theorem undo_checkpoint_reopens_witness:
  "undo' (save example_env (Some ''Add'') None True example_col) = Some (Checkpoint ''Add'') \<and>
   fst (undo example_env (save example_env (Some ''Add'') None True example_col)) = Inr None \<and>
   undo' (snd (undo example_env (save example_env (Some ''Add'') None True example_col))) = None \<and>
   open_trx (db (snd (undo example_env (save example_env (Some ''Add'') None True example_col)))) = 1 \<and>
   calls (db (snd (undo example_env (save example_env (Some ''Add'') None True example_col)))) =
     [Begin, Rollback, Begin]"
  using undo_checkpoint_reopens [of "save example_env (Some ''Add'') None True example_col" "''Add''" example_env]
  by (simp add: undo_save undo_markOp db_save_clean example_col_def example_db_def
      example_tables_def modified_after_begin_def)

text \<open>
  Claim C7, as amended. A version change between distinct supported versions that passes
  the schema gate succeeds and calls the migration routine exactly once, in the direction
  of the new version. The undo record is cleared once, after the gate and before the
  routine, which therefore starts from an empty record whatever record there was at the
  call. Nothing clears the record after the routine: at the return the record is the one
  the routine left, so it is empty whenever the routines leave the undo record alone. The
  persisted version and the scheduler loaded are those of the new version.
\<close>

theorem changeSchedulerVer_clears_before_migration:
  assumes "schedVer c = Inr current" and "ver \<in> {1, 2}" and "ver \<noteq> current"
    and "schemaChanged c \<or> schema_will_change e"
  shows "fst (changeSchedulerVer e ver c) = Inr () \<and>
     migrations (snd (changeSchedulerVer e ver c)) =
       migrations c @ [if ver = 1 then ToV1 else ToV2] \<and>
     undo' (clearUndo (snd (modSchema e True c))) = None \<and>
     undo' (snd (changeSchedulerVer e ver c)) =
       undo' ((if ver = 1 then moveToV1 e else moveToV2 e) (clearUndo (snd (modSchema e True c)))) \<and>
     ((\<forall>s. undo' (moveToV1 e s) = undo' s \<and> undo' (moveToV2 e s) = undo' s) \<longrightarrow>
        undo' (snd (changeSchedulerVer e ver c)) = None) \<and>
     schedVer (snd (changeSchedulerVer e ver c)) = Inr ver \<and>
     impl (sched (snd (changeSchedulerVer e ver c))) = (if ver = 1 then V1Scheduler else V2Scheduler)"
proof -
  note r = changeSchedulerVer_ok [OF assms]
  note m = modSchema_ok [OF assms(4)]
  show ?thesis
    using assms(2)
    by (auto simp: r m conf_set_schedVer_def run_migration_def clearUndo_def new_scheduler_def
        schedVer_def conf_get_schedVer_def db_write_def supportedSchedulerVersions_def Let_def
        set_scm_def)
qed

theorem changeSchedulerVer_clears_before_migration_witness:
  "schedVer (example_col\<lparr>undo' := Some (Checkpoint ''Add'')\<rparr>) = Inr 1 \<and> (2::int) \<in> {1, 2} \<and>
   (2::int) \<noteq> 1 \<and> schema_will_change (example_env\<lparr>schema_will_change := True\<rparr>) \<and>
   fst (changeSchedulerVer (example_env\<lparr>schema_will_change := True\<rparr>) 2
     (example_col\<lparr>undo' := Some (Checkpoint ''Add'')\<rparr>)) = Inr () \<and>
   migrations (snd (changeSchedulerVer (example_env\<lparr>schema_will_change := True\<rparr>) 2
     (example_col\<lparr>undo' := Some (Checkpoint ''Add'')\<rparr>))) = [ToV2] \<and>
   undo' (snd (changeSchedulerVer (example_env\<lparr>schema_will_change := True\<rparr>) 2
     (example_col\<lparr>undo' := Some (Checkpoint ''Add'')\<rparr>))) = None \<and>
   schedVer (snd (changeSchedulerVer (example_env\<lparr>schema_will_change := True\<rparr>) 2
     (example_col\<lparr>undo' := Some (Checkpoint ''Add'')\<rparr>))) = Inr 2 \<and>
   impl (sched (snd (changeSchedulerVer (example_env\<lparr>schema_will_change := True\<rparr>) 2
     (example_col\<lparr>undo' := Some (Checkpoint ''Add'')\<rparr>)))) = V2Scheduler"
  using changeSchedulerVer_clears_before_migration
    [of "example_col\<lparr>undo' := Some (Checkpoint ''Add'')\<rparr>" 1 2
        "example_env\<lparr>schema_will_change := True\<rparr>"]
  by (simp add: example_defs schedVer_def conf_get_schedVer_def supportedSchedulerVersions_def)

text \<open>
  With a migration routine that saves under a name, the checkpoint it records is still
  there when \<^verbatim>\<open>changeSchedulerVer\<close> returns.
\<close>

theorem changeSchedulerVer_undo_after_migration_counterexample:
  "fst (changeSchedulerVer recording_env 2 example_col) = Inr () \<and>
   migrations (snd (changeSchedulerVer recording_env 2 example_col)) = [ToV2] \<and>
   undo' (snd (changeSchedulerVer recording_env 2 example_col)) = Some (Checkpoint ''Migrate'') \<and>
   undoName (snd (changeSchedulerVer recording_env 2 example_col)) \<noteq> None"
proof -
  have s: "schedVer example_col = Inr 1"
    by (simp add: example_defs schedVer_def conf_get_schedVer_def supportedSchedulerVersions_def)
  have h: "schemaChanged example_col \<or> schema_will_change recording_env"
    by (simp add: recording_env_def)
  have v: "(2::int) \<in> {1, 2}" "(2::int) \<noteq> 1" by simp_all
  note r = changeSchedulerVer_ok [OF s v h]
  have m: "moveToV2 recording_env = (\<lambda>c. save example_env (Some ''Migrate'') None True c)"
    by (simp add: recording_env_def)
  show ?thesis
    unfolding r
    by (simp add: conf_set_schedVer_def run_migration_def m undo_save undo_markOp undoName_def
        clearUndo_def set_scm_def example_col_def)
qed

text \<open>
  Claim C8, on two stacked reviews. Card 1 is marked while its note carries the leech tag,
  then card 2 is marked while its note does not: the single flag of the record is now that
  of card 2. Undoing both reviews returns the ids 2 and 1, and the second undo removes the
  leech tag that the note of card 1 carried before its review.
\<close>

theorem undo_stacked_reviews_drops_earlier_leech:
  "hasTag example_col k1 ''leech'' \<and> \<not> hasTag example_col k2 ''leech'' \<and>
   undo' (markReviews example_env [k1, k2] example_col) =
     Some (Review ''Review'' [k1, k2] False) \<and>
   fst (undo_times example_env 2 (markReviews example_env [k1, k2] example_col)) =
     Inr [Some 2, Some 1] \<and>
   \<not> hasTag (snd (undo_times example_env 2 (markReviews example_env [k1, k2] example_col)))
      k1 ''leech''"
proof -
  let ?c2 = "markReviews example_env [k1, k2] example_col"
  have t0: "note_tags (cur (db example_col)) = (\<lambda>n. if n = 1 then [''leech''] else [])"
    by (simp add: example_col_def example_db_def example_tables_def)
  have h1: "hasTag example_col k1 ''leech''" and h2: "\<not> hasTag example_col k2 ''leech''"
    by (simp_all add: hasTag_def example_col_def example_db_def example_tables_def k1_def k2_def)
  have u2: "undo' ?c2 = Some (Review ''Review'' ([k1] @ [k2]) False)"
    using h2
    by (simp add: markReview_undo pending_reviews_def hasTag_def example_col_def example_env_def)
  have q: "- 3 \<le> queue k1" "queue k1 \<le> 4" "- 3 \<le> queue k2" "queue k2 \<le> 4"
    by (simp_all add: k1_def k2_def)
  have n2: "\<not> hasTag ?c2 k2 ''leech''"
    by (simp add: hasTag_def t0 k2_def)
  from undo_review_step [OF u2 q(3,4), of example_env] n2 obtain c3 where
    s3: "undo example_env ?c2 = (Inr (Some (card_id k2)), c3)"
    and u3: "undo' c3 = Some (Review ''Review'' [k1] False)"
    and t3: "note_tags (cur (db c3)) = note_tags (cur (db ?c2))"
    by auto
  have l3: "hasTag c3 k1 ''leech''"
    by (simp add: hasTag_def t3 t0 k1_def)
  from u3 have u3': "undo' c3 = Some (Review ''Review'' ([] @ [k1]) False)"
    by simp
  from undo_review_step [OF u3' q(1,2), of example_env] l3 obtain c4 where
    s4: "undo example_env c3 = (Inr (Some (card_id k1)), c4)"
    and t4: "note_tags (cur (db c4)) =
      (note_tags (cur (db c3)))(nid k1 := filter (\<lambda>x. x \<noteq> ''leech'') (note_tags (cur (db c3)) (nid k1)))"
    by auto
  have l4: "\<not> hasTag c4 k1 ''leech''"
    by (simp add: hasTag_def t4)
  have r: "undo_times example_env 2 ?c2 = (Inr [Some 2, Some 1], c4)"
    using s3 s4 by (simp add: numeral_2_eq_2 k1_def k2_def)
  show ?thesis
    using h1 h2 u2 l4 r by simp
qed

end
